theory Spec2Isabelle
  imports Complex_Main
begin

section \<open>CAMELS US loaders (camelsus.py)\<close>

text \<open>
  The three loaders of \<^verbatim>\<open>camelsus.py\<close> read a directory tree, parse text files with
  pandas and return tables. The embedding below keeps the control flow of each loader
  (every \<^verbatim>\<open>raise\<close> is an \<open>Inl\<close> branch) and models the library calls it makes:

  \<^item> the file system is a finite tree whose directories list their entries in the order
    a directory scan yields them;
  \<^item> \<^verbatim>\<open>Path.glob\<close> walks that tree as pathlib does (a directory's own matches first,
    then its subdirectories in scan order);
  \<^item> \<^verbatim>\<open>pd.read_csv\<close> and the text form of a float are parameters (the record \<open>pylib\<close>):
    the loaders are verified for every parser;
  \<^item> a pandas float is an exact real or one of the IEEE special values; rounding,
    overflow and underflow of binary64 arithmetic are not modelled.
\<close>

subsection \<open>Errors\<close>

text \<open>The exceptions of the loaders and of the library calls they make, with their messages.\<close>

datatype error =
    RuntimeError string
  | OSError string
  | FileNotFoundError string
  | IsADirectoryError string
  | ValueError string
  | KeyError string
  | AttributeError string
  | TypeError string
  | InvalidIndexError string
  | ParserError string

subsection \<open>Values\<close>

text \<open>A float: finite (exact), infinite or not-a-number.\<close>

datatype fl = Fin real | PInf | NInf | NaN

text \<open>A calendar date without time of day: year, month, day.\<close>

datatype date = Date int int int

text \<open>The content of a table cell or an index label.\<close>

datatype val = IntV int | FloatV fl | StrV string | DateV date

text \<open>IEEE multiplication and division on \<open>fl\<close>, finite results exact.\<close>

fun fsign :: "fl \<Rightarrow> int" where
  "fsign (Fin x) = (if x < 0 then -1 else if x = 0 then 0 else 1)"
| "fsign PInf = 1"
| "fsign NInf = -1"
| "fsign NaN = 0"

definition inf_of_sign :: "int \<Rightarrow> fl" where
  "inf_of_sign s = (if s < 0 then NInf else PInf)"

fun fmul :: "fl \<Rightarrow> fl \<Rightarrow> fl" where
  "fmul NaN _ = NaN"
| "fmul _ NaN = NaN"
| "fmul (Fin x) (Fin y) = Fin (x * y)"
| "fmul a b = (if fsign a = 0 \<or> fsign b = 0 then NaN else inf_of_sign (fsign a * fsign b))"

text \<open>
  Division. A finite divisor \<open>0\<close> is the positive zero here (it comes from a Python
  integer), so the sign of the quotient is the sign of the dividend.
\<close>

fun fdiv :: "fl \<Rightarrow> fl \<Rightarrow> fl" where
  "fdiv NaN _ = NaN"
| "fdiv _ NaN = NaN"
| "fdiv (Fin x) (Fin y) =
     (if y = 0 then (if x = 0 then NaN else inf_of_sign (fsign (Fin x))) else Fin (x / y))"
| "fdiv (Fin x) _ = Fin 0"
| "fdiv a (Fin y) = inf_of_sign (fsign a * (if y < 0 then -1 else 1))"
| "fdiv _ _ = NaN"

text \<open>The comparison \<^verbatim>\<open>x < 0\<close>: false on NaN.\<close>

fun flt0 :: "fl \<Rightarrow> bool" where
  "flt0 (Fin x) = (x < 0)"
| "flt0 NInf = True"
| "flt0 _ = False"

subsection \<open>Strings of integers\<close>

definition digit_char :: "nat \<Rightarrow> char" where
  "digit_char d = ''0123456789'' ! d"

definition digit_table :: "(char \<times> nat) list" where
  "digit_table =
     [(CHR ''0'', 0), (CHR ''1'', 1), (CHR ''2'', 2), (CHR ''3'', 3), (CHR ''4'', 4),
      (CHR ''5'', 5), (CHR ''6'', 6), (CHR ''7'', 7), (CHR ''8'', 8), (CHR ''9'', 9)]"

definition digit_of :: "char \<Rightarrow> nat option" where
  "digit_of c = map_of digit_table c"

text \<open>\<^verbatim>\<open>str(n)\<close> for a non-negative integer: its decimal digits.\<close>

fun str_nat :: "nat \<Rightarrow> string" where
  "str_nat n = (if n < 10 then [digit_char n] else str_nat (n div 10) @ [digit_char (n mod 10)])"

declare str_nat.simps [simp del]

text \<open>\<^verbatim>\<open>str(i)\<close> for a Python integer.\<close>

definition str_int :: "int \<Rightarrow> string" where
  "str_int i = (if i < 0 then CHR ''-'' # str_nat (nat (- i)) else str_nat (nat i))"

text \<open>The value of a string of decimal digits, read left to right.\<close>

fun digits_val :: "nat \<Rightarrow> string \<Rightarrow> nat option" where
  "digits_val acc [] = Some acc"
| "digits_val acc (c # cs) =
     (case digit_of c of None \<Rightarrow> None | Some d \<Rightarrow> digits_val (10 * acc + d) cs)"

definition nat_of_digits :: "string \<Rightarrow> nat option" where
  "nat_of_digits s = (if s = [] then None else digits_val 0 s)"

subsection \<open>Python string functions\<close>

text \<open>The characters \<^verbatim>\<open>str.strip()\<close> and \<^verbatim>\<open>int()\<close> treat as white space (ASCII).\<close>

definition is_space :: "char \<Rightarrow> bool" where
  "is_space c = (let k = (of_char c :: nat) in k = 32 \<or> (9 \<le> k \<and> k \<le> 13) \<or> (28 \<le> k \<and> k \<le> 31))"

definition strip :: "string \<Rightarrow> string" where
  "strip s = rev (dropWhile is_space (rev (dropWhile is_space s)))"

text \<open>An underscore of an integer literal stands between two digits.\<close>

fun underscores_ok :: "string \<Rightarrow> bool" where
  "underscores_ok [] = True"
| "underscores_ok [c] = (c \<noteq> CHR ''_'')"
| "underscores_ok (c # d # r) = (\<not> (c = CHR ''_'' \<and> d = CHR ''_'') \<and> underscores_ok (d # r))"

definition int_digits :: "string \<Rightarrow> nat option" where
  "int_digits s =
     (if s \<noteq> [] \<and> hd s \<noteq> CHR ''_'' \<and> underscores_ok s
      then nat_of_digits (filter (\<lambda>c. c \<noteq> CHR ''_'') s) else None)"

text \<open>
  \<^verbatim>\<open>int(s)\<close> in base 10: white space around the literal is dropped, one sign is allowed,
  then digits. \<open>None\<close> is the ValueError.
\<close>

definition py_int :: "string \<Rightarrow> int option" where
  "py_int s =
     (case strip s of
        [] \<Rightarrow> None
      | c # r \<Rightarrow>
          if c = CHR ''-'' then map_option (\<lambda>n. - int n) (int_digits r)
          else if c = CHR ''+'' then map_option int (int_digits r)
          else map_option int (int_digits (c # r)))"

text \<open>\<^verbatim>\<open>s.zfill(width)\<close>: zeros are inserted on the left, after a leading sign.\<close>

definition zfill :: "nat \<Rightarrow> string \<Rightarrow> string" where
  "zfill width s =
     (if width \<le> length s then s
      else case s of
        [] \<Rightarrow> replicate width CHR ''0''
      | c # r \<Rightarrow>
          if c = CHR ''+'' \<or> c = CHR ''-''
          then c # replicate (width - length s) CHR ''0'' @ r
          else replicate (width - length s) CHR ''0'' @ s)"

text \<open>
  Matching one file name against a pattern, as \<^verbatim>\<open>fnmatch\<close> does for the wildcards
  \<^verbatim>\<open>*\<close> and \<^verbatim>\<open>?\<close>; every other character of the pattern stands for itself.
\<close>

fun fnmatch :: "string \<Rightarrow> string \<Rightarrow> bool" where
  "fnmatch [] [] = True"
| "fnmatch [] (c # cs) = False"
| "fnmatch (p # ps) [] = (p = CHR ''*'' \<and> fnmatch ps [])"
| "fnmatch (p # ps) (c # cs) =
     (if p = CHR ''*'' then fnmatch ps (c # cs) \<or> fnmatch (p # ps) cs
      else (p = CHR ''?'' \<or> p = c) \<and> fnmatch ps cs)"

subsection \<open>The file system\<close>

text \<open>
  A file is its lines; a directory lists its entries in the order a scan of the directory
  yields them. A path is the list of names leading from the root of the tree.
\<close>

datatype node = File "string list" | Dir "(string \<times> node) list"

type_synonym path = "string list"

fun lookup :: "node \<Rightarrow> path \<Rightarrow> node option" where
  "lookup n [] = Some n"
| "lookup (File ls) (c # cs) = None"
| "lookup (Dir es) (c # cs) = (case map_of es c of None \<Rightarrow> None | Some n \<Rightarrow> lookup n cs)"

definition path_exists :: "node \<Rightarrow> path \<Rightarrow> bool" where
  "path_exists fs p = (lookup fs p \<noteq> None)"

definition is_dir :: "node \<Rightarrow> path \<Rightarrow> bool" where
  "is_dir fs p = (case lookup fs p of Some (Dir es) \<Rightarrow> True | _ \<Rightarrow> False)"

text \<open>\<^verbatim>\<open>str(path)\<close>: the names joined by a slash.\<close>

fun path_str :: "path \<Rightarrow> string" where
  "path_str [] = ''.''"
| "path_str [c] = c"
| "path_str (c # cs) = c @ ''/'' @ path_str cs"

text \<open>The entries of one directory whose names match, in scan order.\<close>

definition matches_in :: "string \<Rightarrow> path \<Rightarrow> (string \<times> node) list \<Rightarrow> path list" where
  "matches_in pat p es = map (\<lambda>e. p @ [fst e]) (filter (\<lambda>e. fnmatch pat (fst e)) es)"

text \<open>
  \<^verbatim>\<open>glob('**/pat')\<close> below a directory: the directories are visited in pre-order, each
  one yielding its matching entries before its subdirectories are entered.
\<close>

fun rglob :: "string \<Rightarrow> path \<Rightarrow> node \<Rightarrow> path list" where
  "rglob pat p (File ls) = []"
| "rglob pat p (Dir es) =
     matches_in pat p es @ concat (map (\<lambda>e. rglob pat (p @ [fst e]) (snd e)) es)"

text \<open>\<^verbatim>\<open>path.glob(pat)\<close> for a pattern of one name: nothing unless \<open>path\<close> is a directory.\<close>

definition glob :: "node \<Rightarrow> path \<Rightarrow> string \<Rightarrow> path list" where
  "glob fs p pat = (case lookup fs p of Some (Dir es) \<Rightarrow> matches_in pat p es | _ \<Rightarrow> [])"

definition glob_rec :: "node \<Rightarrow> path \<Rightarrow> string \<Rightarrow> path list" where
  "glob_rec fs p pat = (case lookup fs p of Some (Dir es) \<Rightarrow> rglob pat p (Dir es) | _ \<Rightarrow> [])"

text \<open>Opening a path for reading gives the lines of the file.\<close>

definition open_read :: "node \<Rightarrow> path \<Rightarrow> error + string list" where
  "open_read fs p =
     (case lookup fs p of
        None \<Rightarrow> Inl (FileNotFoundError (path_str p))
      | Some (Dir es) \<Rightarrow> Inl (IsADirectoryError (path_str p))
      | Some (File ls) \<Rightarrow> Inr ls)"

subsection \<open>Calendar dates\<close>

definition is_leap :: "int \<Rightarrow> bool" where
  "is_leap y = (y mod 4 = 0 \<and> (y mod 100 \<noteq> 0 \<or> y mod 400 = 0))"

definition days_in_month :: "int \<Rightarrow> int \<Rightarrow> int" where
  "days_in_month y m =
     (if m = 2 then (if is_leap y then 29 else 28)
      else if m = 4 \<or> m = 6 \<or> m = 9 \<or> m = 11 then 30 else 31)"

definition valid_date :: "int \<Rightarrow> int \<Rightarrow> int \<Rightarrow> bool" where
  "valid_date y m d = (1 \<le> m \<and> m \<le> 12 \<and> 1 \<le> d \<and> d \<le> days_in_month y m)"

text \<open>
  The dates a pandas timestamp (nanoseconds in 64 bits) can hold at midnight:
  1677-09-22 to 2262-04-11.
\<close>

definition in_bounds :: "int \<Rightarrow> int \<Rightarrow> int \<Rightarrow> bool" where
  "in_bounds y m d =
     ((1677 < y \<or> (y = 1677 \<and> (9 < m \<or> (m = 9 \<and> 22 \<le> d)))) \<and>
      (y < 2262 \<or> (y = 2262 \<and> (m < 4 \<or> (m = 4 \<and> d \<le> 11)))))"

fun split_on :: "char \<Rightarrow> string \<Rightarrow> string list" where
  "split_on c [] = [[]]"
| "split_on c (x # xs) =
     (if x = c then [] # split_on c xs
      else case split_on c xs of [] \<Rightarrow> [[x]] | r # rs \<Rightarrow> (x # r) # rs)"

text \<open>
  The fields of the format \<^verbatim>\<open>%Y/%m/%d\<close> as \<^verbatim>\<open>strptime\<close> reads them: a year of four
  digits; a month of one or two digits, 1 to 12; a day of one or two digits (or a space
  and a digit), 1 to 31.
\<close>

definition year_field :: "string \<Rightarrow> int option" where
  "year_field s = (if length s = 4 then map_option int (nat_of_digits s) else None)"

definition month_field :: "string \<Rightarrow> int option" where
  "month_field s =
     (if length s = 1 \<or> length s = 2
      then (case nat_of_digits s of
              None \<Rightarrow> None
            | Some n \<Rightarrow> if 1 \<le> n \<and> n \<le> 12 then Some (int n) else None)
      else None)"

definition day_field :: "string \<Rightarrow> int option" where
  "day_field s =
     (let t = (case s of [c, d] \<Rightarrow> if c = CHR '' '' \<and> d \<noteq> CHR ''0'' then [d] else s | _ \<Rightarrow> s)
      in if length t = 1 \<or> length t = 2
         then (case nat_of_digits t of
                 None \<Rightarrow> None
               | Some n \<Rightarrow> if 1 \<le> n \<and> n \<le> 31 then Some (int n) else None)
         else None)"

text \<open>One string against \<^verbatim>\<open>%Y/%m/%d\<close>; the day must exist in the month.\<close>

definition strptime :: "string \<Rightarrow> date option" where
  "strptime s =
     (case split_on CHR ''/'' s of
        [ys, ms, ds] \<Rightarrow>
          (case (year_field ys, month_field ms, day_field ds) of
             (Some y, Some m, Some d) \<Rightarrow>
               if d \<le> days_in_month y m then Some (Date y m d) else None
           | _ \<Rightarrow> None)
      | _ \<Rightarrow> None)"

text \<open>\<^verbatim>\<open>pd.to_datetime(strings, format="%Y/%m/%d")\<close>: the first string that fails raises.\<close>

fun to_datetime :: "string list \<Rightarrow> error + date list" where
  "to_datetime [] = Inr []"
| "to_datetime (s # ss) =
     (case strptime s of
        None \<Rightarrow> Inl (ValueError ''time data does not match format %Y/%m/%d'')
      | Some (Date y m d) \<Rightarrow>
          if \<not> in_bounds y m d then Inl (ValueError ''Out of bounds nanosecond timestamp'')
          else (case to_datetime ss of Inl e \<Rightarrow> Inl e | Inr ds \<Rightarrow> Inr (Date y m d # ds)))"

subsection \<open>Tables\<close>

text \<open>
  A DataFrame: the row labels and the columns in order, each column holding one cell per
  row. A Series of floats: the row labels and the values.
\<close>

record frame =
  index :: "val list"
  columns :: "(string \<times> val list) list"

record series =
  s_index :: "val list"
  s_values :: "fl list"

definition get_col :: "frame \<Rightarrow> string \<Rightarrow> val list option" where
  "get_col df c = map_of (columns df) c"

text \<open>\<^verbatim>\<open>df[c] = vs\<close>: an existing column is replaced in place, a new one is appended.\<close>

definition set_col :: "frame \<Rightarrow> string \<Rightarrow> val list \<Rightarrow> frame" where
  "set_col df c vs =
     df\<lparr>columns :=
          (if c \<in> fst ` set (columns df)
           then map (\<lambda>e. if fst e = c then (c, vs) else e) (columns df)
           else columns df @ [(c, vs)])\<rparr>"

text \<open>\<^verbatim>\<open>df.drop(c, axis=1)\<close>, for a column that exists.\<close>

definition drop_col :: "frame \<Rightarrow> string \<Rightarrow> frame" where
  "drop_col df c = df\<lparr>columns := filter (\<lambda>e. fst e \<noteq> c) (columns df)\<rparr>"

text \<open>\<^verbatim>\<open>df.set_index(c)\<close>: the column becomes the row labels and leaves the columns.\<close>

definition set_index :: "frame \<Rightarrow> string \<Rightarrow> error + frame" where
  "set_index df c =
     (case get_col df c of
        None \<Rightarrow> Inl (KeyError c)
      | Some vs \<Rightarrow> Inr \<lparr>index = vs, columns = filter (\<lambda>e. fst e \<noteq> c) (columns df)\<rparr>)"

text \<open>The positions of the rows labelled \<open>k\<close>.\<close>

definition positions :: "val list \<Rightarrow> val \<Rightarrow> nat list" where
  "positions idx k = filter (\<lambda>i. idx ! i = k) [0..<length idx]"

text \<open>\<^verbatim>\<open>df.loc[keys]\<close> for labels that are all present: the rows of each label, label by label.\<close>

definition loc :: "frame \<Rightarrow> val list \<Rightarrow> frame" where
  "loc df keys =
     (let ps = concat (map (positions (index df)) keys)
      in \<lparr>index = map (\<lambda>i. index df ! i) ps,
          columns = map (\<lambda>e. (fst e, map (\<lambda>i. snd e ! i) ps)) (columns df)\<rparr>)"

text \<open>
  Aligning one column to new row labels: a label the table does not have gives NaN, and
  then the integers of the column become floats.
\<close>

definition int_column :: "val list \<Rightarrow> bool" where
  "int_column vs = list_all (\<lambda>v. case v of IntV i \<Rightarrow> True | _ \<Rightarrow> False) vs"

definition reindex :: "val list \<Rightarrow> val list \<Rightarrow> val list \<Rightarrow> val list" where
  "reindex old vs new =
     (let cells = map (map_of (zip old vs)) new
      in if None \<in> set cells \<and> int_column vs
         then map (\<lambda>c. case c of
                         None \<Rightarrow> FloatV NaN
                       | Some (IntV i) \<Rightarrow> FloatV (Fin (of_int i))
                       | Some v \<Rightarrow> v) cells
         else map (\<lambda>c. case c of None \<Rightarrow> FloatV NaN | Some v \<Rightarrow> v) cells)"

text \<open>
  \<^verbatim>\<open>pd.concat(dfs, axis=1)\<close>: an outer join on the row labels. Tables with the same labels
  are put side by side; otherwise the labels of each table must be unique and the result
  has every label, in the order of first appearance.
\<close>

definition concat_columns :: "frame list \<Rightarrow> error + frame" where
  "concat_columns dfs =
     (if dfs = [] then Inl (ValueError ''No objects to concatenate'')
      else if \<forall>df \<in> set dfs. index df = index (hd dfs)
      then Inr \<lparr>index = index (hd dfs), columns = concat (map columns dfs)\<rparr>
      else if \<exists>df \<in> set dfs. \<not> distinct (index df)
      then Inl (InvalidIndexError ''Reindexing only valid with uniquely valued Index objects'')
      else let idx = rev (remdups (rev (concat (map index dfs))))
           in Inr \<lparr>index = idx,
                   columns = concat (map (\<lambda>df. map (\<lambda>e. (fst e, reindex (index df) (snd e) idx))
                                                    (columns df)) dfs)\<rparr>)"

subsection \<open>The library parameters\<close>

datatype header = Infer | HeaderRow nat | NoHeader

record csv_opts =
  sep :: string
  header :: header
  names :: "string list option"
  dtype :: "(string \<times> string) list"

text \<open>
  \<open>read_csv opts ls\<close> is the table \<^verbatim>\<open>pd.read_csv\<close> parses from the lines \<open>ls\<close>, or its
  error; \<open>float_repr x\<close> is \<^verbatim>\<open>str(x)\<close> for a float.
\<close>

record pylib =
  read_csv :: "csv_opts \<Rightarrow> string list \<Rightarrow> error + frame"
  float_repr :: "fl \<Rightarrow> string"

text \<open>\<^verbatim>\<open>str(x)\<close> for a timestamp at midnight.\<close>

definition date_str :: "date \<Rightarrow> string" where
  "date_str dt =
     (case dt of Date y m d \<Rightarrow>
        zfill 4 (str_int y) @ ''-'' @ zfill 2 (str_int m) @ ''-'' @ zfill 2 (str_int d) @ '' 00:00:00'')"

text \<open>\<^verbatim>\<open>str(x)\<close> for a cell.\<close>

fun py_str :: "pylib \<Rightarrow> val \<Rightarrow> string" where
  "py_str lib (IntV i) = str_int i"
| "py_str lib (FloatV x) = float_repr lib x"
| "py_str lib (StrV s) = s"
| "py_str lib (DateV d) = date_str d"

text \<open>Sequencing of calls that may raise.\<close>

definition bind :: "error + 'a \<Rightarrow> ('a \<Rightarrow> error + 'b) \<Rightarrow> error + 'b" where
  "bind m f = (case m of Inl e \<Rightarrow> Inl e | Inr x \<Rightarrow> f x)"

subsection \<open>load\_camels\_us\_attributes\<close>

definition attribute_opts :: csv_opts where
  "attribute_opts =
     \<lparr>sep = '';'', header = HeaderRow 0, names = None, dtype = [(''gauge_id'', ''str'')]\<rparr>"

text \<open>Lines 39 to 44: every attribute file is parsed and indexed by \<^verbatim>\<open>gauge_id\<close>.\<close>

fun read_attribute_files :: "pylib \<Rightarrow> node \<Rightarrow> path list \<Rightarrow> error + frame list" where
  "read_attribute_files lib fs [] = Inr []"
| "read_attribute_files lib fs (txt_file # txt_files) =
     bind (open_read fs txt_file) (\<lambda>ls.
     bind (read_csv lib attribute_opts ls) (\<lambda>df_temp.
     bind (set_index df_temp ''gauge_id'') (\<lambda>df_temp.
     bind (read_attribute_files lib fs txt_files) (\<lambda>dfs.
     Inr (df_temp # dfs)))))"

text \<open>Lines 31 to 46: the joined table of all attribute files.\<close>

definition joined_attributes :: "pylib \<Rightarrow> node \<Rightarrow> path \<Rightarrow> error + frame" where
  "joined_attributes lib fs data_dir =
     (let attributes_path = data_dir @ [''camels_attributes_v2.0'']
      in if \<not> path_exists fs attributes_path
         then Inl (RuntimeError (''Attribute folder not found at '' @ path_str attributes_path))
         else bind (read_attribute_files lib fs (glob fs attributes_path ''camels_*.txt''))
                concat_columns)"

text \<open>Lines 48 and 49: the column \<^verbatim>\<open>huc\<close> replaces \<^verbatim>\<open>huc_02\<close>.\<close>

definition huc_of :: "pylib \<Rightarrow> val \<Rightarrow> val" where
  "huc_of lib x = StrV (zfill 2 (py_str lib x))"

definition derive_huc :: "pylib \<Rightarrow> frame \<Rightarrow> error + frame" where
  "derive_huc lib df =
     (case get_col df ''huc_02'' of
        None \<Rightarrow> Inl (KeyError ''huc_02'')
      | Some vs \<Rightarrow> Inr (drop_col (set_col df ''huc'' (map (huc_of lib) vs)) ''huc_02''))"

text \<open>Lines 31 to 49: the table before the basin filter.\<close>

definition attributes_table :: "pylib \<Rightarrow> node \<Rightarrow> path \<Rightarrow> error + frame" where
  "attributes_table lib fs data_dir = bind (joined_attributes lib fs data_dir) (derive_huc lib)"

text \<open>Lines 51 to 56: the basin filter, and the loader as a whole.\<close>

definition select_basins :: "string list \<Rightarrow> frame \<Rightarrow> error + frame" where
  "select_basins basins df =
     (if basins \<noteq> [] then
        (if \<exists>b \<in> set basins. StrV b \<notin> set (index df)
         then Inl (ValueError ''Some basins are missing static attributes.'')
         else Inr (loc df (map StrV basins)))
      else Inr df)"

definition load_camels_us_attributes :: "pylib \<Rightarrow> node \<Rightarrow> path \<Rightarrow> string list \<Rightarrow> error + frame" where
  "load_camels_us_attributes lib fs data_dir basins =
     bind (attributes_table lib fs data_dir) (select_basins basins)"

subsection \<open>The date index of both series loaders\<close>

text \<open>
  Lines 98 to 100 and 134 to 135: the strings \<^verbatim>\<open>Year/Mnth/Day\<close> of each row are parsed
  as dates, stored as the column \<^verbatim>\<open>date\<close>, and that column becomes the index.
\<close>

fun date_strings :: "pylib \<Rightarrow> val list \<Rightarrow> val list \<Rightarrow> val list \<Rightarrow> string list" where
  "date_strings lib (y # ys) (m # ms) (d # ds) =
     (py_str lib y @ ''/'' @ py_str lib m @ ''/'' @ py_str lib d) # date_strings lib ys ms ds"
| "date_strings lib _ _ _ = []"

definition date_index :: "pylib \<Rightarrow> frame \<Rightarrow> error + frame" where
  "date_index lib df =
     (case get_col df ''Year'' of
        None \<Rightarrow> Inl (AttributeError ''Year'')
      | Some ys \<Rightarrow>
     (case get_col df ''Mnth'' of
        None \<Rightarrow> Inl (AttributeError ''Mnth'')
      | Some ms \<Rightarrow>
     (case get_col df ''Day'' of
        None \<Rightarrow> Inl (AttributeError ''Day'')
      | Some ds \<Rightarrow>
          bind (to_datetime (date_strings lib ys ms ds)) (\<lambda>dates.
          set_index (set_col df ''date'' (map DateV dates)) ''date''))))"

subsection \<open>load\_camels\_us\_forcings\<close>

text \<open>The separator of white-space delimited files: a backslash, then \<^verbatim>\<open>s+\<close>.\<close>

definition whitespace_sep :: string where
  "whitespace_sep = CHR 0x5C # ''s+''"

definition forcing_opts :: csv_opts where
  "forcing_opts = \<lparr>sep = whitespace_sep, header = Infer, names = None, dtype = []\<rparr>"

text \<open>\<^verbatim>\<open>fp.readline()\<close> for the line at position \<open>k\<close>: the empty string past the end.\<close>

definition readline :: "string list \<Rightarrow> nat \<Rightarrow> string" where
  "readline ls k = (if k < length ls then ls ! k else [])"

text \<open>Lines 91 to 102: the header and the table of the file found.\<close>

definition read_forcing_file :: "pylib \<Rightarrow> node \<Rightarrow> path \<Rightarrow> error + frame \<times> int" where
  "read_forcing_file lib fs file_path =
     bind (open_read fs file_path) (\<lambda>fp.
     case py_int (readline fp 2) of
       None \<Rightarrow> Inl (ValueError ''invalid literal for int() with base 10'')
     | Some area \<Rightarrow>
         bind (read_csv lib forcing_opts (drop 3 fp)) (\<lambda>df.
         bind (date_index lib df) (\<lambda>df.
         Inr (df, area))))"

definition load_camels_us_forcings ::
  "pylib \<Rightarrow> node \<Rightarrow> path \<Rightarrow> string \<Rightarrow> string \<Rightarrow> error + frame \<times> int" where
  "load_camels_us_forcings lib fs data_dir basin forcings =
     (let forcing_path = data_dir @ [''basin_mean_forcing'', forcings]
      in if \<not> is_dir fs forcing_path
         then Inl (OSError (path_str forcing_path @ '' does not exist''))
         else (case glob_rec fs forcing_path (basin @ ''_*_forcing_leap.txt'') of
                 [] \<Rightarrow> Inl (FileNotFoundError (''No file for Basin '' @ basin @ '' at []''))
               | file_path # others \<Rightarrow> read_forcing_file lib fs file_path))"

subsection \<open>load\_camels\_us\_discharge\<close>

definition discharge_opts :: csv_opts where
  "discharge_opts =
     \<lparr>sep = whitespace_sep, header = NoHeader,
      names = Some [''basin'', ''Year'', ''Mnth'', ''Day'', ''QObs'', ''flag''], dtype = []\<rparr>"


text \<open>The cells of a column as floats; arithmetic on a string raises.\<close>

fun to_floats :: "val list \<Rightarrow> error + fl list" where
  "to_floats [] = Inr []"
| "to_floats (IntV i # vs) = bind (to_floats vs) (\<lambda>xs. Inr (Fin (of_int i) # xs))"
| "to_floats (FloatV x # vs) = bind (to_floats vs) (\<lambda>xs. Inr (x # xs))"
| "to_floats (v # vs) = Inl (TypeError ''unsupported operand type(s) for *'')"

text \<open>Line 138, for one value: \<^verbatim>\<open>28316846.592 * QObs * 86400 / (area * 10**6)\<close>.\<close>

definition normalize :: "int \<Rightarrow> fl \<Rightarrow> fl" where
  "normalize area q =
     fdiv (fmul (fmul (Fin 28316846.592) q) (Fin 86400)) (Fin (of_int (area * 10 ^ 6)))"

text \<open>
  Line 140, for one value: \<^verbatim>\<open>QObs[QObs < 0] = nan\<close>. The assignment goes through
  \<^verbatim>\<open>df.QObs\<close> and writes into the column of the table, as pandas does without
  copy-on-write.
\<close>

definition mask_negative :: "fl \<Rightarrow> fl" where
  "mask_negative x = (if flt0 x then NaN else x)"

text \<open>Lines 132 to 142: the series of the file found.\<close>

definition read_discharge_file :: "pylib \<Rightarrow> node \<Rightarrow> path \<Rightarrow> int \<Rightarrow> error + series" where
  "read_discharge_file lib fs file_path area =
     bind (open_read fs file_path) (\<lambda>ls.
     bind (read_csv lib discharge_opts ls) (\<lambda>df.
     bind (date_index lib df) (\<lambda>df.
     case get_col df ''QObs'' of
       None \<Rightarrow> Inl (AttributeError ''QObs'')
     | Some qs \<Rightarrow>
         bind (to_floats qs) (\<lambda>qobs.
         Inr \<lparr>s_index = index df,
              s_values = map mask_negative (map (normalize area) qobs)\<rparr>))))"

definition load_camels_us_discharge ::
  "pylib \<Rightarrow> node \<Rightarrow> path \<Rightarrow> string \<Rightarrow> int \<Rightarrow> error + series" where
  "load_camels_us_discharge lib fs data_dir basin area =
     (let discharge_path = data_dir @ [''usgs_streamflow'']
      in case glob_rec fs discharge_path (basin @ ''_streamflow_qc.txt'') of
           [] \<Rightarrow> Inl (FileNotFoundError (''No file for Basin '' @ basin @ '' at []''))
         | file_path # others \<Rightarrow> read_discharge_file lib fs file_path area)"

subsection \<open>The conversion formula and the error taxonomy of the specification\<close>


text \<open>
  The error taxonomy of the specification: a configuration error (a required directory is
  absent), a not-found error (no file matches the pattern of the basin), a validation
  error (a requested basin is absent from the attribute table).
\<close>

datatype category = Configuration | NotFound | Validation

fun taxonomy :: "error \<Rightarrow> category option" where
  "taxonomy (RuntimeError msg) = Some Configuration"
| "taxonomy (OSError msg) = Some Configuration"
| "taxonomy (FileNotFoundError msg) = Some NotFound"
| "taxonomy (ValueError msg) =
     (if msg = ''Some basins are missing static attributes.'' then Some Validation else None)"
| "taxonomy e = None"

text \<open>One row of a table: the cell of every column at a position.\<close>

definition row_of :: "frame \<Rightarrow> nat \<Rightarrow> (string \<times> val) list" where
  "row_of df i = map (\<lambda>e. (fst e, snd e ! i)) (columns df)"

subsection \<open>A small data set\<close>

text \<open>
  A directory \<^verbatim>\<open>camels\<close> with two attribute files, two forcing files and one discharge
  file for basin 01013500, and the tables pandas reads from them.
\<close>

definition name_lines :: "string list" where
  "name_lines = [''gauge_id;huc_02;gauge_name'', ''01013500;01;Fish River'', ''02430085;03;Red Bud Creek'']"

definition topo_lines :: "string list" where
  "topo_lines = [''gauge_id;area_gages2'', ''01013500;2252'', ''02430085;49'']"

definition forcing_lines :: "string list" where
  "forcing_lines =
     [''  47.23'', ''  250'', ''  831000000'', ''Year Mnth Day prcp'',
      ''1980 01 01 0'', ''1980 01 02 3'']"

definition second_forcing_lines :: "string list" where
  "second_forcing_lines = [''  40.00'', ''  100'', ''  5''] @ drop 3 forcing_lines"

definition discharge_lines :: "string list" where
  "discharge_lines = [''01013500 1980 01 01 300 A'', ''01013500 1980 01 02 -999 M'']"

definition name_table :: frame where
  "name_table =
     \<lparr>index = [IntV 0, IntV 1],
      columns = [(''gauge_id'', [StrV ''01013500'', StrV ''02430085'']),
                 (''huc_02'', [IntV 1, IntV 3]),
                 (''gauge_name'', [StrV ''Fish River'', StrV ''Red Bud Creek''])]\<rparr>"

definition topo_table :: frame where
  "topo_table =
     \<lparr>index = [IntV 0, IntV 1],
      columns = [(''gauge_id'', [StrV ''01013500'', StrV ''02430085'']),
                 (''area_gages2'', [IntV 2252, IntV 49])]\<rparr>"

definition forcing_table :: frame where
  "forcing_table =
     \<lparr>index = [IntV 0, IntV 1],
      columns = [(''Year'', [IntV 1980, IntV 1980]), (''Mnth'', [IntV 1, IntV 1]),
                 (''Day'', [IntV 1, IntV 2]), (''prcp'', [IntV 0, IntV 3])]\<rparr>"

definition discharge_table :: frame where
  "discharge_table =
     \<lparr>index = [IntV 0, IntV 1],
      columns = [(''basin'', [IntV 1013500, IntV 1013500]),
                 (''Year'', [IntV 1980, IntV 1980]), (''Mnth'', [IntV 1, IntV 1]),
                 (''Day'', [IntV 1, IntV 2]), (''QObs'', [IntV 300, IntV (- 999)]),
                 (''flag'', [StrV ''A'', StrV ''M''])]\<rparr>"

text \<open>A third attribute file, with a region code of three digits.\<close>

definition wide_lines :: "string list" where
  "wide_lines = [''gauge_id;huc_02'', ''01013500;100'']"

definition wide_table :: frame where
  "wide_table =
     \<lparr>index = [IntV 0],
      columns = [(''gauge_id'', [StrV ''01013500'']), (''huc_02'', [IntV 100])]\<rparr>"

text \<open>The parser on these files.\<close>

definition sample_read_csv :: "csv_opts \<Rightarrow> string list \<Rightarrow> error + frame" where
  "sample_read_csv opts ls =
     (if ls = name_lines then Inr name_table
      else if ls = topo_lines then Inr topo_table
      else if ls = drop 3 forcing_lines then Inr forcing_table
      else if ls = discharge_lines then Inr discharge_table
      else if ls = wide_lines then Inr wide_table
      else Inl (ParserError ''No columns to parse from file''))"

text \<open>
  A text form for floats. No float of the data set is turned into text, so the digits of a
  finite float are left as a placeholder.
\<close>

definition sample_float_repr :: "fl \<Rightarrow> string" where
  "sample_float_repr x = (case x of NaN \<Rightarrow> ''nan'' | PInf \<Rightarrow> ''inf'' | NInf \<Rightarrow> ''-inf'' | Fin r \<Rightarrow> ''0.0'')"

definition sample_lib :: pylib where
  "sample_lib = \<lparr>read_csv = sample_read_csv, float_repr = sample_float_repr\<rparr>"

definition sample_fs :: node where
  "sample_fs =
     Dir [(''camels'',
       Dir [(''camels_attributes_v2.0'',
              Dir [(''camels_name.txt'', File name_lines), (''readme.txt'', File []),
                   (''camels_topo.txt'', File topo_lines)]),
            (''basin_mean_forcing'',
              Dir [(''daymet'',
                Dir [(''01'', Dir [(''01013500_lump_cida_forcing_leap.txt'', File forcing_lines)]),
                     (''02'', Dir [(''01013500_lump_cida_forcing_leap.txt'',
                                    File second_forcing_lines)])])]),
            (''usgs_streamflow'',
              Dir [(''01'', Dir [(''01013500_streamflow_qc.txt'', File discharge_lines)])])]),
      (''wide'',
       Dir [(''camels_attributes_v2.0'', Dir [(''camels_name.txt'', File wide_lines)])]),
      (''bare'', Dir [(''camels_attributes_v2.0'', Dir [(''readme.txt'', File [])])])]"

section \<open>Properties\<close>

subsection \<open>Basic facts\<close>

lemma bind_Inl [simp]: "bind (Inl e) f = Inl e"
  by (simp add: bind_def)

lemma bind_Inr [simp]: "bind (Inr x) f = f x"
  by (simp add: bind_def)

lemma bind_eq_Inr: "bind m f = Inr y \<longleftrightarrow> (\<exists>x. m = Inr x \<and> f x = Inr y)"
  by (cases m) simp_all

lemmas sample_data =
  sample_fs_def sample_lib_def sample_read_csv_def sample_float_repr_def
  name_lines_def topo_lines_def forcing_lines_def second_forcing_lines_def
  discharge_lines_def wide_lines_def
  name_table_def topo_table_def forcing_table_def discharge_table_def wide_table_def

lemmas eval_int = py_int_def strip_def is_space_def int_digits_def nat_of_digits_def
  digit_of_def digit_table_def str_int_def str_nat.simps digit_char_def zfill_def

lemmas eval_date = strptime_def year_field_def month_field_def day_field_def
  days_in_month_def is_leap_def in_bounds_def date_index_def

lemmas eval_frame = get_col_def set_col_def set_index_def drop_col_def loc_def positions_def
  concat_columns_def reindex_def int_column_def

lemmas eval_fs = glob_rec_def glob_def matches_in_def open_read_def path_exists_def is_dir_def


text \<open>The loaders on the small data set.\<close>

lemma sample_attributes:
  "attributes_table sample_lib sample_fs [''camels''] =
     Inr \<lparr>index = [StrV ''01013500'', StrV ''02430085''],
          columns = [(''gauge_name'', [StrV ''Fish River'', StrV ''Red Bud Creek'']),
                     (''area_gages2'', [IntV 2252, IntV 49]),
                     (''huc'', [StrV ''01'', StrV ''03''])]\<rparr>"
  by (simp add: attributes_table_def joined_attributes_def derive_huc_def huc_of_def
      attribute_opts_def sample_data eval_fs eval_frame eval_int)

lemma sample_forcing_glob:
  "glob_rec sample_fs ([''camels''] @ [''basin_mean_forcing'', ''daymet''])
     (''01013500'' @ ''_*_forcing_leap.txt'') =
     [[''camels'', ''basin_mean_forcing'', ''daymet'', ''01'', ''01013500_lump_cida_forcing_leap.txt''],
      [''camels'', ''basin_mean_forcing'', ''daymet'', ''02'', ''01013500_lump_cida_forcing_leap.txt'']]"
  by (simp add: glob_rec_def sample_fs_def matches_in_def)

lemma sample_forcing_file:
  "read_forcing_file sample_lib sample_fs
     [''camels'', ''basin_mean_forcing'', ''daymet'', ''01'', ''01013500_lump_cida_forcing_leap.txt''] =
   Inr (\<lparr>index = [DateV (Date 1980 1 1), DateV (Date 1980 1 2)],
         columns = [(''Year'', [IntV 1980, IntV 1980]), (''Mnth'', [IntV 1, IntV 1]),
                    (''Day'', [IntV 1, IntV 2]), (''prcp'', [IntV 0, IntV 3])]\<rparr>, 831000000)"
  by (simp add: read_forcing_file_def sample_data readline_def eval_fs eval_int eval_date
      get_col_def set_col_def set_index_def)

subsection \<open>Decimal strings\<close>

text \<open>Reading back the decimal text of an integer gives the integer.\<close>

lemma digit_of_digit_char: "d < 10 \<Longrightarrow> digit_of (digit_char d) = Some d"
proof -
  assume "d < 10"
  then have "d \<in> {0,1,2,3,4,5,6,7,8,9}" by auto
  then show ?thesis by (auto simp: digit_char_def digit_of_def digit_table_def)
qed

lemma digit_of_plain:
  "digit_of c = Some d \<Longrightarrow>
     \<not> is_space c \<and> c \<noteq> CHR ''_'' \<and> c \<noteq> CHR ''-'' \<and> c \<noteq> CHR ''+'' \<and> c \<noteq> CHR ''/''"
  by (auto simp: digit_of_def digit_table_def is_space_def split: if_splits)

lemma digits_val_append:
  "digits_val acc (xs @ ys) =
     (case digits_val acc xs of None \<Rightarrow> None | Some a \<Rightarrow> digits_val a ys)"
  by (induction xs arbitrary: acc) (auto split: option.splits)

lemma str_nat_nonempty: "str_nat n \<noteq> []"
  by (subst str_nat.simps) simp

lemma digits_val_str_nat: "digits_val 0 (str_nat n) = Some n"
proof (induction n rule: str_nat.induct)
  case (1 n)
  show ?case
  proof (cases "n < 10")
    case True
    then show ?thesis by (subst str_nat.simps) (simp add: digit_of_digit_char)
  next
    case False
    with 1 have "digits_val 0 (str_nat (n div 10)) = Some (n div 10)" by simp
    with False show ?thesis
      by (subst str_nat.simps) (simp add: digits_val_append digit_of_digit_char)
  qed
qed

lemma str_nat_digits: "c \<in> set (str_nat n) \<Longrightarrow> \<exists>d. digit_of c = Some d"
proof (induction n rule: str_nat.induct)
  case (1 n)
  show ?case
  proof (cases "n < 10")
    case True
    with 1(2) show ?thesis by (subst (asm) str_nat.simps) (simp add: digit_of_digit_char)
  next
    case False
    with 1 show ?thesis
      by (subst (asm) (2) str_nat.simps) (auto simp: digit_of_digit_char)
  qed
qed

lemma nat_of_digits_str_nat: "nat_of_digits (str_nat n) = Some n"
  by (simp add: nat_of_digits_def str_nat_nonempty digits_val_str_nat)

lemma no_underscore_ok: "CHR ''_'' \<notin> set s \<Longrightarrow> underscores_ok s"
  by (induction s rule: underscores_ok.induct) auto

lemma int_digits_str_nat: "int_digits (str_nat n) = Some n"
proof -
  have plain: "CHR ''_'' \<notin> set (str_nat n)"
    using str_nat_digits digit_of_plain by blast
  then have "filter (\<lambda>c. c \<noteq> CHR ''_'') (str_nat n) = str_nat n"
    by (auto intro: filter_True)
  moreover have "hd (str_nat n) \<noteq> CHR ''_''"
    using plain str_nat_nonempty hd_in_set by metis
  ultimately show ?thesis
    by (simp add: int_digits_def str_nat_nonempty no_underscore_ok plain nat_of_digits_str_nat)
qed

lemma str_int_nonempty: "str_int i \<noteq> []"
  by (simp add: str_int_def str_nat_nonempty)

lemma str_int_chars: "c \<in> set (str_int i) \<Longrightarrow> c = CHR ''-'' \<or> (\<exists>d. digit_of c = Some d)"
  by (auto simp: str_int_def dest: str_nat_digits split: if_splits)

lemma str_int_no_space: "c \<in> set (str_int i) \<Longrightarrow> \<not> is_space c"
  using str_int_chars digit_of_plain by (fastforce simp: is_space_def)

lemma strip_padded:
  assumes "s \<noteq> []" and "\<forall>c \<in> set s. \<not> is_space c"
    and "list_all is_space a" and "list_all is_space b"
  shows "strip (a @ s @ b) = s"
proof -
  from assms(1) obtain c r where s: "s = c # r" by (cases s) auto
  from assms(1) obtain r' l where s': "s = r' @ [l]" by (cases s rule: rev_cases) auto
  have "dropWhile is_space (a @ s @ b) = s @ b"
    using assms(2,3) s by (simp add: dropWhile_append list_all_iff)
  moreover have "dropWhile is_space (rev (s @ b)) = rev s"
    using assms(2,4) s' by (simp add: dropWhile_append list_all_iff)
  ultimately show ?thesis by (simp add: strip_def)
qed

lemma py_int_of_literal:
  assumes "strip s = str_int n"
  shows "py_int s = Some n"
proof (cases "n < 0")
  case True
  then show ?thesis
    using assms by (simp add: py_int_def str_int_def int_digits_str_nat)
next
  case False
  obtain c r where cr: "str_nat (nat n) = c # r"
    using str_nat_nonempty by (cases "str_nat (nat n)") auto
  then have "c \<in> set (str_nat (nat n))" by simp
  then obtain d where "digit_of c = Some d" using str_nat_digits by blast
  then have "c \<noteq> CHR ''-''" "c \<noteq> CHR ''+''" using digit_of_plain by auto
  moreover have "int_digits (c # r) = Some (nat n)"
    using int_digits_str_nat [of "nat n"] cr by simp
  ultimately show ?thesis
    using assms False cr by (simp add: py_int_def str_int_def)
qed

lemma py_int_str_int:
  "list_all is_space a \<Longrightarrow> list_all is_space b \<Longrightarrow> py_int (a @ str_int n @ b) = Some n"
  by (rule py_int_of_literal) (simp add: strip_padded str_int_nonempty str_int_no_space)

lemma py_int_empty: "py_int [] = None"
  by (simp add: py_int_def strip_def)

lemma sample_forcings:
  "load_camels_us_forcings sample_lib sample_fs [''camels''] ''01013500'' ''daymet'' =
   Inr (\<lparr>index = [DateV (Date 1980 1 1), DateV (Date 1980 1 2)],
         columns = [(''Year'', [IntV 1980, IntV 1980]), (''Mnth'', [IntV 1, IntV 1]),
                    (''Day'', [IntV 1, IntV 2]), (''prcp'', [IntV 0, IntV 3])]\<rparr>, 831000000)"
proof -
  have "is_dir sample_fs ([''camels''] @ [''basin_mean_forcing'', ''daymet''])"
    by (simp add: sample_fs_def is_dir_def)
  then show ?thesis
    using sample_forcing_glob sample_forcing_file by (simp add: load_camels_us_forcings_def)
qed

subsection \<open>Dates and columns\<close>

text \<open>Parsing the date string built from three integer cells gives back those integers.\<close>

lemma split_on_none: "c \<notin> set a \<Longrightarrow> split_on c a = [a]"
  by (induction a) auto

lemma split_on_first: "c \<notin> set a \<Longrightarrow> split_on c (a @ c # rest) = a # split_on c rest"
  by (induction a) auto

lemma str_int_no_slash: "CHR ''/'' \<notin> set (str_int i)"
  using str_int_chars digit_of_plain by fastforce

lemma split_date_string:
  "split_on CHR ''/'' (str_int y @ ''/'' @ str_int m @ ''/'' @ str_int d) =
     [str_int y, str_int m, str_int d]"
  by (simp add: split_on_first split_on_none str_int_no_slash)
















lemma index_set_col [simp]: "index (set_col df c vs) = index df"
  by (simp add: set_col_def)












subsection \<open>Float columns\<close>






subsection \<open>Selecting rows, padding strings\<close>

lemma positions_bound: "i \<in> set (positions idx k) \<Longrightarrow> i < length idx \<and> idx ! i = k"
  by (simp add: positions_def)

lemma map_positions: "map (\<lambda>i. idx ! i) (positions idx k) = filter (\<lambda>x. x = k) idx"
proof -
  have "filter (\<lambda>x. x = k) (map (\<lambda>i. idx ! i) [0..<length idx]) =
        map (\<lambda>i. idx ! i) (positions idx k)"
    by (simp add: positions_def filter_map comp_def)
  then show ?thesis by (simp add: map_nth)
qed

lemma filter_eq_distinct: "distinct xs \<Longrightarrow> k \<in> set xs \<Longrightarrow> filter (\<lambda>x. x = k) xs = [k]"
  by (induction xs) (auto simp: filter_empty_conv)

lemma index_loc:
  "index (loc df keys) = concat (map (\<lambda>k. filter (\<lambda>x. x = k) (index df)) keys)"
  by (simp add: loc_def Let_def map_concat comp_def map_positions)

lemma index_loc_distinct:
  assumes "distinct (index df)" and "set keys \<subseteq> set (index df)"
  shows "index (loc df keys) = keys"
proof -
  have "concat (map (\<lambda>k. filter (\<lambda>x. x = k) (index df)) keys) = keys"
    using assms by (induction keys) (simp_all add: filter_eq_distinct)
  then show ?thesis by (simp add: index_loc)
qed

lemma set_index_loc: "set (index (loc df keys)) = set keys \<inter> set (index df)"
  by (auto simp: index_loc)

lemma columns_loc: "map fst (columns (loc df keys)) = map fst (columns df)"
  by (simp add: loc_def Let_def comp_def)

lemma loc_positions_bound:
  "p \<in> set (concat (map (positions (index df)) keys)) \<Longrightarrow> p < length (index df)"
  by (auto dest: positions_bound)

lemma loc_rows:
  assumes "j < length (index (loc df keys))"
  shows "\<exists>i<length (index df). index df ! i = index (loc df keys) ! j \<and>
           row_of (loc df keys) j = row_of df i"
proof -
  let ?ps = "concat (map (positions (index df)) keys)"
  from assms have j: "j < length ?ps" by (simp add: loc_def Let_def)
  then have "?ps ! j \<in> set ?ps" by (rule nth_mem)
  then have "?ps ! j < length (index df)" by (rule loc_positions_bound)
  moreover have "index (loc df keys) ! j = index df ! (?ps ! j)"
    using j by (simp add: loc_def Let_def)
  moreover have "row_of (loc df keys) j = row_of df (?ps ! j)"
    using j by (simp add: row_of_def loc_def Let_def comp_def)
  ultimately show ?thesis by auto
qed


lemma length_str_nat_small: "n < 10 \<Longrightarrow> length (str_nat n) = 1"
  by (subst str_nat.simps) simp

lemma length_str_nat_two: "10 \<le> n \<Longrightarrow> n < 100 \<Longrightarrow> length (str_nat n) = 2"
  by (subst str_nat.simps) (simp add: length_str_nat_small)

lemma length_str_int_small: "- 9 \<le> n \<Longrightarrow> n \<le> 99 \<Longrightarrow> length (str_int n) \<le> 2"
proof -
  assume a: "- 9 \<le> n" "n \<le> 99"
  show ?thesis
  proof (cases "n < 0")
    case True
    with a have "nat (- n) < 10" by simp
    with True show ?thesis by (simp add: str_int_def length_str_nat_small)
  next
    case False
    show ?thesis
    proof (cases "nat n < 10")
      case True
      with False show ?thesis by (simp add: str_int_def length_str_nat_small)
    next
      case ge: False
      with a have "10 \<le> nat n" "nat n < 100" by simp_all
      with False show ?thesis by (simp add: str_int_def length_str_nat_two)
    qed
  qed
qed








subsection \<open>Valid dates are parsed\<close>

text \<open>
  Conversely, three integer cells that form a date of the calendar, with a year of four
  digits, are parsed to that date.
\<close>

lemma length_str_nat_step: "10 \<le> n \<Longrightarrow> length (str_nat n) = Suc (length (str_nat (n div 10)))"
  by (subst str_nat.simps) simp

lemma length_str_nat_four: "1000 \<le> n \<Longrightarrow> n \<le> 9999 \<Longrightarrow> length (str_nat n) = 4"
  by (simp add: length_str_nat_step length_str_nat_small)

lemma nat_of_digits_str_int_nonneg: "0 \<le> i \<Longrightarrow> nat_of_digits (str_int i) = Some (nat i)"
  by (simp add: str_int_def nat_of_digits_str_nat)

lemma length_str_int_pos: "0 \<le> i \<Longrightarrow> i \<le> 99 \<Longrightarrow> length (str_int i) = 1 \<or> length (str_int i) = 2"
proof -
  assume a: "0 \<le> i" "i \<le> 99"
  have "length (str_int i) \<le> 2" using a by (simp add: length_str_int_small)
  moreover have "length (str_int i) \<noteq> 0" by (simp add: str_int_nonempty)
  ultimately show ?thesis by linarith
qed

lemma strptime_valid:
  assumes "valid_date y m d" and "1000 \<le> y" and "y \<le> 9999"
  shows "strptime (str_int y @ ''/'' @ str_int m @ ''/'' @ str_int d) = Some (Date y m d)"
proof -
  from assms(1) have m: "1 \<le> m" "m \<le> 12" and d: "1 \<le> d" "d \<le> days_in_month y m"
    by (simp_all add: valid_date_def)
  from d(2) have d31: "d \<le> 31" by (simp add: days_in_month_def split: if_splits)
  have "length (str_int y) = 4"
    using assms(2,3) by (simp add: str_int_def length_str_nat_four)
  then have yf: "year_field (str_int y) = Some y"
    using assms(2) by (simp add: year_field_def nat_of_digits_str_int_nonneg)
  have mf: "month_field (str_int m) = Some m"
    using m length_str_int_pos [of m] by (auto simp: month_field_def nat_of_digits_str_int_nonneg)
  have "CHR '' '' \<notin> set (str_int d)"
    using str_int_no_space [of "CHR '' ''" d] by (auto simp: is_space_def)
  then have "(case str_int d of [c, e] \<Rightarrow> if c = CHR '' '' \<and> e \<noteq> CHR ''0'' then [e] else str_int d
          | _ \<Rightarrow> str_int d) = str_int d"
    by (auto split: list.splits)
  then have df: "day_field (str_int d) = Some d"
    using d(1) d31 length_str_int_pos [of d]
    by (auto simp: day_field_def Let_def nat_of_digits_str_int_nonneg)
  from yf mf df d(2) show ?thesis
    unfolding strptime_def split_date_string by simp
qed

subsection \<open>Locating the discharge file\<close>

text \<open>
  Claim C7. The discharge loader does not test whether the directory
  \<^verbatim>\<open>usgs_streamflow\<close> exists: when it is missing the search finds nothing, and whenever
  the search for \<^verbatim>\<open><basin>_streamflow_qc.txt\<close> finds nothing the call raises
  FileNotFoundError; it returns no series.
\<close>

theorem discharge_not_found:
  "(\<not> path_exists fs (data_dir @ [''usgs_streamflow'']) \<longrightarrow>
      glob_rec fs (data_dir @ [''usgs_streamflow'']) (basin @ ''_streamflow_qc.txt'') = []) \<and>
   (glob_rec fs (data_dir @ [''usgs_streamflow'']) (basin @ ''_streamflow_qc.txt'') = [] \<longrightarrow>
      load_camels_us_discharge lib fs data_dir basin area =
        Inl (FileNotFoundError (''No file for Basin '' @ basin @ '' at []'')))"
  by (simp add: load_camels_us_discharge_def path_exists_def glob_rec_def)

theorem discharge_not_found_witness:
  "\<not> path_exists sample_fs ([''bare''] @ [''usgs_streamflow'']) \<and>
   glob_rec sample_fs ([''bare''] @ [''usgs_streamflow'']) (''01013500'' @ ''_streamflow_qc.txt'') = [] \<and>
   glob_rec sample_fs ([''camels''] @ [''usgs_streamflow'']) (''99999999'' @ ''_streamflow_qc.txt'') = [] \<and>
   load_camels_us_discharge sample_lib sample_fs [''bare''] ''01013500'' 831000000 =
     Inl (FileNotFoundError ''No file for Basin 01013500 at []'') \<and>
   load_camels_us_discharge sample_lib sample_fs [''camels''] ''99999999'' 831000000 =
     Inl (FileNotFoundError ''No file for Basin 99999999 at []'')"
proof -
  have a: "\<not> path_exists sample_fs ([''bare''] @ [''usgs_streamflow''])"
    by (simp add: path_exists_def sample_fs_def)
  have b: "glob_rec sample_fs ([''camels''] @ [''usgs_streamflow''])
             (''99999999'' @ ''_streamflow_qc.txt'') = []"
    by (simp add: glob_rec_def sample_fs_def matches_in_def)
  show ?thesis
    using a b
      discharge_not_found [of sample_fs "[''bare'']" "''01013500''" sample_lib 831000000]
      discharge_not_found [of sample_fs "[''camels'']" "''99999999''" sample_lib 831000000]
    by simp
qed

subsection \<open>Locating the forcing file\<close>



subsection \<open>The attribute loader without a filter, and without files\<close>

text \<open>
  Claim C9. An empty basin list (the default) is no filter: the loader makes no membership
  test and returns the table of all basins as it stands, not the table of no rows that
  selecting an empty list of labels would give.
\<close>

theorem empty_basins_no_filter:
  "load_camels_us_attributes lib fs data_dir [] = attributes_table lib fs data_dir \<and>
   select_basins [] df = Inr df \<and> index (loc df []) = []"
proof -
  have "bind m (select_basins []) = m" for m :: "error + frame"
    by (cases m) (simp_all add: select_basins_def bind_def)
  then show ?thesis
    by (simp add: load_camels_us_attributes_def select_basins_def loc_def)
qed

theorem empty_basins_no_filter_witness:
  "load_camels_us_attributes sample_lib sample_fs [''camels''] [] =
     Inr \<lparr>index = [StrV ''01013500'', StrV ''02430085''],
          columns = [(''gauge_name'', [StrV ''Fish River'', StrV ''Red Bud Creek'']),
                     (''area_gages2'', [IntV 2252, IntV 49]),
                     (''huc'', [StrV ''01'', StrV ''03''])]\<rparr>"
  using empty_basins_no_filter [of sample_lib sample_fs "[''camels'']"] sample_attributes
  by simp

text \<open>
  Claim C10. When the attribute directory exists and holds no file matching
  \<^verbatim>\<open>camels_*.txt\<close>, the loader returns no table: concatenating the empty list of tables
  raises \<^verbatim>\<open>ValueError: No objects to concatenate\<close>, which is none of the configuration,
  not-found and validation errors of the specification.
\<close>

theorem no_attribute_files:
  assumes "path_exists fs (data_dir @ [''camels_attributes_v2.0''])"
    and "glob fs (data_dir @ [''camels_attributes_v2.0'']) ''camels_*.txt'' = []"
  shows "load_camels_us_attributes lib fs data_dir basins =
           Inl (ValueError ''No objects to concatenate'') \<and>
         taxonomy (ValueError ''No objects to concatenate'') = None"
  using assms
  by (simp add: load_camels_us_attributes_def attributes_table_def joined_attributes_def
      concat_columns_def)

theorem no_attribute_files_witness:
  "path_exists sample_fs ([''bare''] @ [''camels_attributes_v2.0'']) \<and>
   glob sample_fs ([''bare''] @ [''camels_attributes_v2.0'']) ''camels_*.txt'' = [] \<and>
   load_camels_us_attributes sample_lib sample_fs [''bare''] [''01013500''] =
     Inl (ValueError ''No objects to concatenate'')"
proof -
  have a: "path_exists sample_fs ([''bare''] @ [''camels_attributes_v2.0''])"
    by (simp add: sample_fs_def eval_fs)
  have b: "glob sample_fs ([''bare''] @ [''camels_attributes_v2.0'']) ''camels_*.txt'' = []"
    by (simp add: sample_fs_def eval_fs)
  from no_attribute_files [OF a b, of sample_lib "[''01013500'']"] a b show ?thesis by simp
qed

subsection \<open>The catchment area\<close>

text \<open>
  Claim C5. For a forcing file that the loader has located and opened, the area it returns
  is the integer read from the third line of that file (the lines before it are skipped):
  a successful call has a third line that \<^verbatim>\<open>int()\<close> reads as the returned area; when the
  third line is the decimal text of \<open>n\<close>, with white space around it, the area is \<open>n\<close>;
  and when the third line reads as \<open>n\<close> and the table below it is parsed and dated, the
  call returns \<open>n\<close>.
\<close>

theorem forcing_area_third_line:
  assumes "is_dir fs (data_dir @ [''basin_mean_forcing'', forcings])"
    and "glob_rec fs (data_dir @ [''basin_mean_forcing'', forcings]) (basin @ ''_*_forcing_leap.txt'') =
           file_path # others"
    and "open_read fs file_path = Inr fp"
  shows "(\<forall>df area. load_camels_us_forcings lib fs data_dir basin forcings = Inr (df, area) \<longrightarrow>
            3 \<le> length fp \<and> py_int (fp ! 2) = Some area) \<and>
         (\<forall>n a b df area.
            3 \<le> length fp \<and> fp ! 2 = a @ str_int n @ b \<and> list_all is_space a \<and> list_all is_space b \<and>
            load_camels_us_forcings lib fs data_dir basin forcings = Inr (df, area) \<longrightarrow> area = n) \<and>
         (\<forall>n parsed df.
            3 \<le> length fp \<and> py_int (fp ! 2) = Some n \<and>
            read_csv lib forcing_opts (drop 3 fp) = Inr parsed \<and> date_index lib parsed = Inr df \<longrightarrow>
            load_camels_us_forcings lib fs data_dir basin forcings = Inr (df, n))"
proof -
  have load: "load_camels_us_forcings lib fs data_dir basin forcings =
      (case py_int (readline fp 2) of
         None \<Rightarrow> Inl (ValueError ''invalid literal for int() with base 10'')
       | Some area \<Rightarrow>
           bind (read_csv lib forcing_opts (drop 3 fp)) (\<lambda>df.
           bind (date_index lib df) (\<lambda>df. Inr (df, area))))"
    using assms by (simp add: load_camels_us_forcings_def read_forcing_file_def)
  have first: "3 \<le> length fp \<and> py_int (fp ! 2) = Some area"
    if "load_camels_us_forcings lib fs data_dir basin forcings = Inr (df, area)" for df area
  proof -
    from that load have *: "py_int (readline fp 2) = Some area"
      by (auto split: option.splits simp: bind_eq_Inr)
    then have "2 < length fp"
      by (cases "2 < length fp") (simp_all add: readline_def py_int_empty)
    with * show ?thesis by (simp add: readline_def)
  qed
  have second: "area = n"
    if "3 \<le> length fp" "fp ! 2 = a @ str_int n @ b" "list_all is_space a" "list_all is_space b"
      "load_camels_us_forcings lib fs data_dir basin forcings = Inr (df, area)" for n a b df area
    using first [OF that(5)] that(2-4) by (simp add: py_int_str_int)
  have third: "load_camels_us_forcings lib fs data_dir basin forcings = Inr (df, n)"
    if "3 \<le> length fp" "py_int (fp ! 2) = Some n"
      "read_csv lib forcing_opts (drop 3 fp) = Inr parsed" "date_index lib parsed = Inr df"
    for n parsed df
    using that load by (simp add: readline_def)
  from first second third show ?thesis by blast
qed

theorem forcing_area_third_line_witness:
  "is_dir sample_fs ([''camels''] @ [''basin_mean_forcing'', ''daymet'']) \<and>
   open_read sample_fs
     [''camels'', ''basin_mean_forcing'', ''daymet'', ''01'', ''01013500_lump_cida_forcing_leap.txt''] =
     Inr forcing_lines \<and>
   forcing_lines ! 2 = ''  '' @ str_int 831000000 @ [] \<and>
   3 \<le> length forcing_lines \<and>
   py_int (forcing_lines ! 2) = Some 831000000 \<and>
   snd (projr (load_camels_us_forcings sample_lib sample_fs [''camels''] ''01013500'' ''daymet'')) =
     831000000"
proof -
  have a: "is_dir sample_fs ([''camels''] @ [''basin_mean_forcing'', ''daymet''])"
    by (simp add: sample_fs_def is_dir_def)
  have c: "open_read sample_fs
     [''camels'', ''basin_mean_forcing'', ''daymet'', ''01'', ''01013500_lump_cida_forcing_leap.txt''] =
     Inr forcing_lines"
    by (simp add: sample_fs_def open_read_def)
  have d: "forcing_lines ! 2 = ''  '' @ str_int 831000000 @ []"
    by (simp add: forcing_lines_def str_int_def str_nat.simps digit_char_def)
  from forcing_area_third_line [OF a sample_forcing_glob c, of sample_lib]
  have "\<forall>df area.
          load_camels_us_forcings sample_lib sample_fs [''camels''] ''01013500'' ''daymet'' =
            Inr (df, area) \<longrightarrow>
          3 \<le> length forcing_lines \<and> py_int (forcing_lines ! 2) = Some area"
    by (rule conjunct1)
  with sample_forcings
  have "3 \<le> length forcing_lines \<and> py_int (forcing_lines ! 2) = Some 831000000"
    by blast
  with a c d sample_forcings show ?thesis by simp
qed

subsection \<open>The date index\<close>



subsection \<open>The discharge series\<close>






subsection \<open>The basin filter\<close>

text \<open>
  Claim C4. For a basin list that is not empty: when a requested basin is not a label of
  the attribute table, the call raises the validation error
  \<^verbatim>\<open>Some basins are missing static attributes.\<close> and returns no table; when every
  requested basin is a label, the call returns a table with the same columns whose labels
  are the requested basins and only those, every row of which is the row of the attribute
  table with that label, and (the labels of the table being unique) whose labels are the
  requested list, in the order requested.
\<close>

theorem basin_filter:
  assumes "attributes_table lib fs data_dir = Inr df" and "basins \<noteq> []"
  shows "((\<exists>b \<in> set basins. StrV b \<notin> set (index df)) \<longrightarrow>
            load_camels_us_attributes lib fs data_dir basins =
              Inl (ValueError ''Some basins are missing static attributes.'') \<and>
            taxonomy (ValueError ''Some basins are missing static attributes.'') = Some Validation) \<and>
         ((\<forall>b \<in> set basins. StrV b \<in> set (index df)) \<longrightarrow>
            (\<exists>r. load_camels_us_attributes lib fs data_dir basins = Inr r \<and>
                 set (index r) = StrV ` set basins \<and>
                 map fst (columns r) = map fst (columns df) \<and>
                 (\<forall>j<length (index r). \<exists>i<length (index df).
                    index df ! i = index r ! j \<and> row_of r j = row_of df i) \<and>
                 (distinct (index df) \<longrightarrow> index r = map StrV basins)))"
proof (intro conjI impI)
  assume "\<exists>b \<in> set basins. StrV b \<notin> set (index df)"
  with assms show "load_camels_us_attributes lib fs data_dir basins =
      Inl (ValueError ''Some basins are missing static attributes.'')"
    by (simp add: load_camels_us_attributes_def select_basins_def)
next
  show "taxonomy (ValueError ''Some basins are missing static attributes.'') = Some Validation"
    by simp
next
  assume present: "\<forall>b \<in> set basins. StrV b \<in> set (index df)"
  let ?r = "loc df (map StrV basins)"
  from assms present have "load_camels_us_attributes lib fs data_dir basins = Inr ?r"
    by (simp add: load_camels_us_attributes_def select_basins_def)
  moreover have "set (index ?r) = StrV ` set basins"
    using present by (auto simp: set_index_loc)
  moreover have "map fst (columns ?r) = map fst (columns df)"
    by (rule columns_loc)
  moreover have "\<forall>j<length (index ?r). \<exists>i<length (index df).
      index df ! i = index ?r ! j \<and> row_of ?r j = row_of df i"
    using loc_rows by blast
  moreover have "distinct (index df) \<longrightarrow> index ?r = map StrV basins"
  proof
    assume "distinct (index df)"
    moreover from present have "set (map StrV basins) \<subseteq> set (index df)" by auto
    ultimately show "index ?r = map StrV basins" by (rule index_loc_distinct)
  qed
  ultimately show "\<exists>r. load_camels_us_attributes lib fs data_dir basins = Inr r \<and>
                 set (index r) = StrV ` set basins \<and>
                 map fst (columns r) = map fst (columns df) \<and>
                 (\<forall>j<length (index r). \<exists>i<length (index df).
                    index df ! i = index r ! j \<and> row_of r j = row_of df i) \<and>
                 (distinct (index df) \<longrightarrow> index r = map StrV basins)"
    by blast
qed

theorem basin_filter_witness:
  "attributes_table sample_lib sample_fs [''camels''] =
     Inr \<lparr>index = [StrV ''01013500'', StrV ''02430085''],
          columns = [(''gauge_name'', [StrV ''Fish River'', StrV ''Red Bud Creek'']),
                     (''area_gages2'', [IntV 2252, IntV 49]),
                     (''huc'', [StrV ''01'', StrV ''03''])]\<rparr> \<and>
   load_camels_us_attributes sample_lib sample_fs [''camels''] [''02430085'', ''x''] =
     Inl (ValueError ''Some basins are missing static attributes.'') \<and>
   index (projr (load_camels_us_attributes sample_lib sample_fs [''camels'']
                   [''02430085'', ''01013500''])) =
     [StrV ''02430085'', StrV ''01013500''] \<and>
   row_of (projr (load_camels_us_attributes sample_lib sample_fs [''camels'']
                    [''02430085'', ''01013500''])) 0 =
     [(''gauge_name'', StrV ''Red Bud Creek''), (''area_gages2'', IntV 49), (''huc'', StrV ''03'')]"
proof -
  let ?t = "\<lparr>index = [StrV ''01013500'', StrV ''02430085''],
          columns = [(''gauge_name'', [StrV ''Fish River'', StrV ''Red Bud Creek'']),
                     (''area_gages2'', [IntV 2252, IntV 49]),
                     (''huc'', [StrV ''01'', StrV ''03''])]\<rparr>"
  have ne1: "[''02430085'', ''x''] \<noteq> []" and ne2: "[''02430085'', ''01013500''] \<noteq> []"
    by simp_all
  have absent: "\<exists>b \<in> set [''02430085'', ''x'']. StrV b \<notin> set (index ?t)" by simp
  have present: "\<forall>b \<in> set [''02430085'', ''01013500'']. StrV b \<in> set (index ?t)" by simp
  have dist: "distinct (index ?t)" by simp
  from basin_filter [OF sample_attributes ne1, THEN conjunct1, THEN mp, OF absent]
  have e: "load_camels_us_attributes sample_lib sample_fs [''camels''] [''02430085'', ''x''] =
     Inl (ValueError ''Some basins are missing static attributes.'')"
    by simp
  from basin_filter [OF sample_attributes ne2, THEN conjunct2, THEN mp, OF present]
  obtain r where r: "load_camels_us_attributes sample_lib sample_fs [''camels'']
                       [''02430085'', ''01013500''] = Inr r"
    and i: "distinct (index ?t) \<longrightarrow> index r = map StrV [''02430085'', ''01013500'']"
    by blast
  from i dist have "index r = [StrV ''02430085'', StrV ''01013500'']" by simp
  moreover have "load_camels_us_attributes sample_lib sample_fs [''camels'']
                       [''02430085'', ''01013500''] = Inr (loc ?t (map StrV [''02430085'', ''01013500'']))"
    using sample_attributes by (simp add: load_camels_us_attributes_def select_basins_def)
  moreover have "row_of (loc ?t (map StrV [''02430085'', ''01013500''])) 0 =
     [(''gauge_name'', StrV ''Red Bud Creek''), (''area_gages2'', IntV 49), (''huc'', StrV ''03'')]"
    by (simp add: row_of_def loc_def positions_def)
  ultimately show ?thesis using e r sample_attributes by simp
qed

subsection \<open>The region code\<close>




end
